theory Spec2Isabelle
  imports Complex_Main
begin

section \<open>Numbers\<close>

text \<open>
  The simulator computes with JavaScript numbers.  They are modelled as exact reals:
  rounding, infinities and NaN are outside that model, so a statement about it is a
  statement about the arithmetic the code writes down, carried out exactly.  Where the
  rounding of the numbers decides a property (the time stamps of the output buffer), the
  arithmetic is modelled a second time in IEEE double precision, see \<open>dbl\<close> and
  \<open>stamp_step\<close> below.

  The remainder operator \<^verbatim>\<open>a % b\<close> of JavaScript truncates the quotient towards zero,
  so its result has the sign of the dividend \<^verbatim>\<open>a\<close>.  (Where \<^verbatim>\<open>b\<close> is zero JavaScript
  gives NaN; the model gives \<open>a\<close>.)
\<close>

definition js_trunc :: "real \<Rightarrow> int" where
  "js_trunc x = (if 0 \<le> x then \<lfloor>x\<rfloor> else \<lceil>x\<rceil>)"

definition js_rem :: "real \<Rightarrow> real \<Rightarrow> real" where
  "js_rem a b = a - b * of_int (js_trunc (a / b))"

text \<open>\<^verbatim>\<open>xs.map((val, i) => f(val, i))\<close>: the callback sees the element and its index.\<close>

definition js_map :: "('a \<Rightarrow> nat \<Rightarrow> 'b) \<Rightarrow> 'a list \<Rightarrow> 'b list" where
  "js_map f xs = map (\<lambda>(val, i). f val i) (zip xs [0..<length xs])"

section \<open>Data model (types.ts)\<close>

record SimulationParams =
  Ras :: real
  Rcs :: real
  Rvs :: real
  Ras_prox :: real
  Rcp :: real
  Rap :: real
  Rvp :: real
  Rap_prox :: real
  Rmv :: real
  Rtv :: real
  Rda :: real
  Cas :: real
  Cvs :: real
  Cas_prox :: real
  Cap :: real
  Cvp :: real
  Cap_prox :: real
  Cda :: real
  LV_Ees :: real
  LV_V0 :: real
  LV_alpha :: real
  LV_beta :: real
  LV_Tmax :: real
  LV_tau :: real
  LV_AV_delay :: real
  LA_Ees :: real
  LA_V0 :: real
  LA_alpha :: real
  LA_beta :: real
  LA_Tmax :: real
  LA_tau :: real
  LA_AV_delay :: real
  RV_Ees :: real
  RV_V0 :: real
  RV_alpha :: real
  RV_beta :: real
  RV_Tmax :: real
  RV_tau :: real
  RV_AV_delay :: real
  RA_Ees :: real
  RA_V0 :: real
  RA_alpha :: real
  RA_beta :: real
  RA_Tmax :: real
  RA_tau :: real
  RA_AV_delay :: real
  HR :: real
  Ravr :: real
  Ravs :: real
  Rmvr :: real
  Rmvs :: real
  Rpvr :: real
  Rpvs :: real
  Rtvr :: real
  Rtvs :: real

record SimulationState =
  Qvs :: real
  Qas :: real
  Qap :: real
  Qvp :: real
  Qlv :: real
  Qla :: real
  Qrv :: real
  Qra :: real
  Qas_prox :: real
  Qda :: real
  Qap_prox :: real
  Qtube :: real

text \<open>
  The auxiliary object built by \<^verbatim>\<open>rhs\<close>:
  \<^verbatim>\<open>{ Plv, Pla, Prv, Pra, AoP: Paop, PAP, Imv, Iasp }\<close>.
\<close>

record Aux =
  Plv :: real
  Pla :: real
  Prv :: real
  Pra :: real
  AoP :: real
  PAP :: real
  Imv :: real
  Iasp :: real

text \<open>
  \<^verbatim>\<open>SimulationOutput\<close> has the fields \<^verbatim>\<open>t\<close>, \<^verbatim>\<open>y\<close>, \<^verbatim>\<open>aux\<close>; they are prefixed here,
  as are the fields of the objects returned by \<^verbatim>\<open>rhs\<close> and \<^verbatim>\<open>stepRK4\<close> and the fields
  \<^verbatim>\<open>t\<close>, \<^verbatim>\<open>y\<close> of \<^verbatim>\<open>PhysicsRefState\<close>, because a record field is a constant of the
  whole theory.
\<close>

record SimulationOutput =
  out_t :: real
  out_y :: SimulationState
  out_aux :: Aux

type_synonym StateVector = "real list"

record SimInstance =
  inst_id :: string
  inst_name :: string
  color :: string
  params :: SimulationParams
  targetVolume :: real
  isVisible :: bool

record PhysicsRefState =
  phys_t :: real
  phys_y :: StateVector
  buffer :: "SimulationOutput list"
  lastRenderX :: real
  activeParams :: SimulationParams

section \<open>Physics (services/physics)\<close>

subsection \<open>Activation function\<close>

text \<open>
  The three \<^verbatim>\<open>return\<close> expressions of \<^verbatim>\<open>e_func\<close>, as functions of the period \<open>T\<close> and
  the reduced time \<open>t\<close>, and the cascade of tests that selects one of them.  (The
  parameter \<^verbatim>\<open>HR\<close> is written \<open>hr\<close> and the raw time \<^verbatim>\<open>_t\<close> is written \<open>t'\<close>.)
\<close>

definition e_rising :: "real \<Rightarrow> real \<Rightarrow> real \<Rightarrow> real \<Rightarrow> real" where
  "e_rising T Tmax tau t =
     (let base = exp (- (T - 1.5 * Tmax) / tau) / 2
      in ((- cos (pi * t / Tmax) + 1) / 2) * (1 - base) + base)"

definition e_falling :: "real \<Rightarrow> real \<Rightarrow> real" where
  "e_falling Tmax t = (cos (2 * pi * t / Tmax) + 1) / 2"

definition e_tail :: "real \<Rightarrow> real \<Rightarrow> real \<Rightarrow> real" where
  "e_tail Tmax tau t = exp (- (t - 9 * Tmax / 8) / tau) * (2 + sqrt 2) / 4"

definition e_phase :: "real \<Rightarrow> real \<Rightarrow> real \<Rightarrow> real \<Rightarrow> real" where
  "e_phase T Tmax tau t =
     (if t < Tmax then e_rising T Tmax tau t
      else if t < 9 * Tmax / 8 then e_falling Tmax t
      else e_tail Tmax tau t)"

definition e_func :: "real \<Rightarrow> real \<Rightarrow> real \<Rightarrow> real \<Rightarrow> real" where
  "e_func t' Tmax tau hr =
     (let T = 60000 / hr;
          t = js_rem t' T
      in e_phase T Tmax tau t)"

subsection \<open>Chamber pressure\<close>

definition P_ch ::
  "real \<Rightarrow> real \<Rightarrow> real \<Rightarrow> real \<Rightarrow> real \<Rightarrow> real \<Rightarrow> real \<Rightarrow> real \<Rightarrow> real \<Rightarrow> real \<Rightarrow> real" where
  "P_ch V t Ees V0 alpha beta Tmax tau AV_delay hr =
     (let Ped = beta * (exp (alpha * (V - V0)) - 1);
          Pes = Ees * (V - V0)
      in Ped + e_func (t - AV_delay) Tmax tau hr * (Pes - Ped))"

subsection \<open>Valve flow\<close>

definition valve_flow :: "real \<Rightarrow> real \<Rightarrow> real \<Rightarrow> real \<Rightarrow> real" where
  "valve_flow deltaP R Rs Rr =
     (if deltaP > 0 then
        (if Rs = 0 then deltaP / R
         else (- R + sqrt (R * R + 4 * Rs * deltaP)) / (2 * Rs))
      else
        (if Rr \<ge> 100000 then deltaP / (R + Rr)
         else (let disc = R * R - 4 * Rr * deltaP
               in (- R - sqrt disc) / (2 * Rr))))"

subsection \<open>Right-hand side of the ODEs\<close>

text \<open>
  \<^verbatim>\<open>rhs\<close> reads the first eleven entries of the state vector by destructuring and
  returns a literal array of twelve derivatives.  The state vectors of the program all
  have twelve entries; the theorems that depend on it say so.
\<close>

record RhsResult =
  rhs_dy :: StateVector
  rhs_aux :: Aux

definition rhs :: "real \<Rightarrow> StateVector \<Rightarrow> SimulationParams \<Rightarrow> RhsResult" where
  "rhs t y p =
     (let Qvs = y ! 0; Qas = y ! 1; Qap = y ! 2; Qvp = y ! 3;
          Qlv = y ! 4; Qla = y ! 5; Qrv = y ! 6; Qra = y ! 7;
          Qas_prox = y ! 8; Qda = y ! 9; Qap_prox = y ! 10;
          hr = HR p;
          Plv = P_ch Qlv t (LV_Ees p) (LV_V0 p) (LV_alpha p) (LV_beta p) (LV_Tmax p) (LV_tau p) (LV_AV_delay p) hr;
          Pla = P_ch Qla t (LA_Ees p) (LA_V0 p) (LA_alpha p) (LA_beta p) (LA_Tmax p) (LA_tau p) (LA_AV_delay p) hr;
          Prv = P_ch Qrv t (RV_Ees p) (RV_V0 p) (RV_alpha p) (RV_beta p) (RV_Tmax p) (RV_tau p) (RV_AV_delay p) hr;
          Pra = P_ch Qra t (RA_Ees p) (RA_V0 p) (RA_alpha p) (RA_beta p) (RA_Tmax p) (RA_tau p) (RA_AV_delay p) hr;
          Paop = Qas_prox / Cas_prox p;
          PAP = Qap_prox / Cap_prox p;
          Pda = Qda / Cda p;
          Pas = Qas / Cas p;
          Pvs = Qvs / Cvs p;
          Pvp = Qvp / Cvp p;
          Pap = Qap / Cap p;
          Ida = (Paop - Pda) / Rda p;
          Ias = (Pda - Pas) / Ras p;
          Ics = (Pas - Pvs) / Rcs p;
          Ivs = (Pvs - Pra) / Rvs p;
          Ivp = (Pvp - Pla) / Rvp p;
          Iap = (Pap - Pvp) / Rap p;
          Icp = (PAP - Pap) / Rcp p;
          Itv = valve_flow (Pra - Prv) (Rtv p) (Rtvs p) (Rtvr p);
          Imv = valve_flow (Pla - Plv) (Rmv p) (Rmvs p) (Rmvr p);
          Iasp = valve_flow (Plv - Paop) (Ras_prox p) (Ravs p) (Ravr p);
          Iapp = valve_flow (Prv - PAP) (Rap_prox p) (Rpvs p) (Rpvr p);
          dQvs = Ics - Ivs;
          dQas = Ias - Ics;
          dQap = Icp - Iap;
          dQvp = Iap - Ivp;
          dQlv = Imv - Iasp;
          dQla = Ivp - Imv;
          dQrv = Itv - Iapp;
          dQra = Ivs - Itv;
          dQas_prox = Iasp - Ida;
          dQda = Ida - Ias;
          dQap_prox = Iapp - Icp;
          dQtube = 0
      in \<lparr> rhs_dy = [dQvs, dQas, dQap, dQvp, dQlv, dQla, dQrv, dQra,
                     dQas_prox, dQda, dQap_prox, dQtube],
           rhs_aux = \<lparr> Plv = Plv, Pla = Pla, Prv = Prv, Pra = Pra,
                       AoP = Paop, PAP = PAP, Imv = Imv, Iasp = Iasp \<rparr> \<rparr>)"

subsection \<open>RK4 step\<close>

record StepResult =
  tNext :: real
  yNext :: StateVector
  step_aux :: Aux

definition stepRK4 :: "real \<Rightarrow> StateVector \<Rightarrow> real \<Rightarrow> SimulationParams \<Rightarrow> StepResult" where
  "stepRK4 t y dt p =
     (let r1 = rhs t y p;
          k1 = rhs_dy r1;
          y_k2 = js_map (\<lambda>val i. val + dt * k1 ! i / 2) y;
          k2 = rhs_dy (rhs (t + dt / 2) y_k2 p);
          y_k3 = js_map (\<lambda>val i. val + dt * k2 ! i / 2) y;
          k3 = rhs_dy (rhs (t + dt / 2) y_k3 p);
          y_k4 = js_map (\<lambda>val i. val + dt * k3 ! i) y;
          k4 = rhs_dy (rhs (t + dt) y_k4 p)
      in \<lparr> tNext = t + dt,
           yNext = js_map (\<lambda>val i. val + dt * (k1 ! i + 2 * k2 ! i + 2 * k3 ! i + k4 ! i) / 6) y,
           step_aux = rhs_aux r1 \<rparr>)"

definition getTotalVolume :: "StateVector \<Rightarrow> real" where
  "getTotalVolume y = foldl (\<lambda>acc val. acc + val) 0 y"

section \<open>The physics loop (App.tsx)\<close>

definition PHYSICS_DT :: real where
  "PHYSICS_DT = 2"

definition MAX_STEPS_PER_FRAME :: int where
  "MAX_STEPS_PER_FRAME = 20"

subsection \<open>Commits at the phase boundaries\<close>

text \<open>
  The assignments of the \<^verbatim>\<open>isEndDiastole\<close> block, from the live parameters \<open>p\<close> into the
  active parameters \<open>ap\<close>, in the order of the source.
\<close>

definition commit_end_diastole :: "SimulationParams \<Rightarrow> SimulationParams \<Rightarrow> SimulationParams" where
  "commit_end_diastole p ap =
     ap\<lparr> HR := HR p,
         Ras := Ras p, Rcs := Rcs p, Rvs := Rvs p, Ras_prox := Ras_prox p, Rda := Rda p,
         Rap := Rap p, Rvp := Rvp p, Rap_prox := Rap_prox p, Rcp := Rcp p,
         Rmv := Rmv p, Rtv := Rtv p,
         Cas := Cas p, Cvs := Cvs p, Cas_prox := Cas_prox p, Cda := Cda p,
         Cap := Cap p, Cvp := Cvp p, Cap_prox := Cap_prox p,
         LV_Ees := LV_Ees p, LV_V0 := LV_V0 p,
         RV_Ees := RV_Ees p, RV_V0 := RV_V0 p,
         LA_Ees := LA_Ees p, LA_V0 := LA_V0 p,
         RA_Ees := RA_Ees p, RA_V0 := RA_V0 p \<rparr>"

text \<open>The assignments of the \<^verbatim>\<open>isEndSystole\<close> block.\<close>

definition commit_end_systole :: "SimulationParams \<Rightarrow> SimulationParams \<Rightarrow> SimulationParams" where
  "commit_end_systole p ap =
     ap\<lparr> LV_alpha := LV_alpha p, LV_beta := LV_beta p, LV_tau := LV_tau p, LV_Tmax := LV_Tmax p,
         RV_alpha := RV_alpha p, RV_beta := RV_beta p, RV_tau := RV_tau p, RV_Tmax := RV_Tmax p,
         LA_alpha := LA_alpha p, LA_beta := LA_beta p, LA_tau := LA_tau p,
         RA_alpha := RA_alpha p, RA_beta := RA_beta p, RA_tau := RA_tau p \<rparr>"

text \<open>
  The volume-matching part of the \<^verbatim>\<open>isEndDiastole\<close> block: \<open>volume_delta\<close> is the value
  of the local \<^verbatim>\<open>delta\<close>, \<open>inject_volume\<close> the guarded update \<^verbatim>\<open>phys.y[0] += delta\<close>
  (of a state vector that has a first entry, as all state vectors of the program have).
\<close>

definition volume_delta :: "real \<Rightarrow> StateVector \<Rightarrow> real" where
  "volume_delta targetTotal y =
     (let currentTotal = getTotalVolume y;
          diff = targetTotal - currentTotal;
          maxDelta = 500
      in max (- maxDelta) (min maxDelta diff))"

definition inject_volume :: "real \<Rightarrow> StateVector \<Rightarrow> StateVector" where
  "inject_volume targetTotal y =
     (let delta = volume_delta targetTotal y
      in if \<bar>delta\<bar> > 1 then y[0 := y ! 0 + delta] else y)"

definition end_diastole :: "SimInstance \<Rightarrow> PhysicsRefState \<Rightarrow> PhysicsRefState" where
  "end_diastole uiInst phys =
     phys\<lparr> activeParams := commit_end_diastole (params uiInst) (activeParams phys),
           phys_y := inject_volume (targetVolume uiInst) (phys_y phys) \<rparr>"

definition end_systole :: "SimInstance \<Rightarrow> PhysicsRefState \<Rightarrow> PhysicsRefState" where
  "end_systole uiInst phys =
     phys\<lparr> activeParams := commit_end_systole (params uiInst) (activeParams phys) \<rparr>"

subsection \<open>One physics step of one instance\<close>

definition make_output :: "StepResult \<Rightarrow> SimulationOutput" where
  "make_output r =
     (let yn = yNext r
      in \<lparr> out_t = tNext r,
           out_y = \<lparr> Qvs = yn ! 0, Qas = yn ! 1, Qap = yn ! 2, Qvp = yn ! 3,
                     Qlv = yn ! 4, Qla = yn ! 5, Qrv = yn ! 6, Qra = yn ! 7,
                     Qas_prox = yn ! 8, Qda = yn ! 9, Qap_prox = yn ! 10, Qtube = yn ! 11 \<rparr>,
           out_aux = step_aux r \<rparr>)"

text \<open>\<^verbatim>\<open>buffer.push(output)\<close>, then at most one \<^verbatim>\<open>buffer.shift()\<close>.\<close>

definition push_trim :: "SimulationOutput \<Rightarrow> SimulationOutput list \<Rightarrow> SimulationOutput list" where
  "push_trim output buf =
     (let bufferRequiredMs = 21000;
          buf1 = buf @ [output];
          cutoffTime = out_t output - bufferRequiredMs
      in if length buf1 > 0 \<and> out_t (hd buf1) < cutoffTime then tl buf1 else buf1)"

text \<open>
  The two phase tests at the head of the \<^verbatim>\<open>forEach\<close> callback, on the active heart rate
  and the active \<open>LV_Tmax\<close>.
\<close>

definition isEndDiastole :: "PhysicsRefState \<Rightarrow> bool" where
  "isEndDiastole phys =
     (let T = 60000 / HR (activeParams phys);
          prevPhase = js_rem (phys_t phys - PHYSICS_DT) T;
          currPhase = js_rem (phys_t phys) T
      in currPhase < prevPhase)"

definition isEndSystole :: "PhysicsRefState \<Rightarrow> bool" where
  "isEndSystole phys =
     (let T = 60000 / HR (activeParams phys);
          prevPhase = js_rem (phys_t phys - PHYSICS_DT) T;
          currPhase = js_rem (phys_t phys) T;
          tMax = LV_Tmax (activeParams phys)
      in prevPhase < tMax \<and> currPhase \<ge> tMax)"

text \<open>
  The body of the \<^verbatim>\<open>forEach\<close> callback for an instance whose physics state exists:
  both phase tests are evaluated before either commit, as in the source; then come the
  integration and the recording of its result (\<open>integrate_step\<close>).
\<close>

definition integrate_step :: "PhysicsRefState \<Rightarrow> PhysicsRefState" where
  "integrate_step phys =
     (let r = stepRK4 (phys_t phys) (phys_y phys) PHYSICS_DT (activeParams phys)
      in phys\<lparr> phys_t := tNext r,
               phys_y := yNext r,
               buffer := push_trim (make_output r) (buffer phys) \<rparr>)"

definition instance_step :: "SimInstance \<Rightarrow> PhysicsRefState \<Rightarrow> PhysicsRefState" where
  "instance_step uiInst phys =
     (let ed = isEndDiastole phys;
          es = isEndSystole phys;
          phys1 = (if ed then end_diastole uiInst phys else phys);
          phys2 = (if es then end_systole uiInst phys1 else phys1)
      in integrate_step phys2)"

text \<open>
  The successive steps of one instance; the list holds the instance as the user
  interface presents it at each step (its live parameters and target volume may change
  from one step to the next).
\<close>

definition run_instance :: "SimInstance list \<Rightarrow> PhysicsRefState \<Rightarrow> PhysicsRefState" where
  "run_instance uiInsts phys = foldl (\<lambda>ph uiInst. instance_step uiInst ph) phys uiInsts"

subsection \<open>One frame\<close>

text \<open>
  One pass of the \<^verbatim>\<open>forEach\<close> over the instances; an instance without a physics state
  is skipped.
\<close>

definition step_instances ::
  "SimInstance list \<Rightarrow> (string \<rightharpoonup> PhysicsRefState) \<Rightarrow> (string \<rightharpoonup> PhysicsRefState)" where
  "step_instances insts refs =
     foldl (\<lambda>m uiInst. case m (inst_id uiInst) of
                          None \<Rightarrow> m
                        | Some phys \<Rightarrow> m(inst_id uiInst \<mapsto> instance_step uiInst phys))
           refs insts"

record LoopState =
  lastFrameTime :: real
  residueTime :: real
  physicsRefs :: "string \<rightharpoonup> PhysicsRefState"

text \<open>
  The callback \<^verbatim>\<open>loop(now)\<close>.  The references it reads (\<^verbatim>\<open>isPlayingRef\<close>,
  \<^verbatim>\<open>timeScaleRef\<close>, \<^verbatim>\<open>instanceRefs\<close>) are arguments; the result is the new state together
  with the number of iterations the \<^verbatim>\<open>for\<close> loop made, that is the number of physics
  steps executed in the frame.  \<open>deltaTimeMs\<close> is the wall-clock delta of the frame
  (the local \<^verbatim>\<open>deltaTimeMs\<close>, computed before \<^verbatim>\<open>lastFrameTimeRef\<close> is overwritten).
\<close>

definition deltaTimeMs :: "LoopState \<Rightarrow> real \<Rightarrow> real" where
  "deltaTimeMs s now = now - (if lastFrameTime s = 0 then now else lastFrameTime s)"

text \<open>
  The accumulator after the frame's scaled delta has been added, and the value of
  \<^verbatim>\<open>stepsToRun\<close> before the clamp.
\<close>

definition frame_residue :: "LoopState \<Rightarrow> real \<Rightarrow> real \<Rightarrow> real" where
  "frame_residue s timeScale now = residueTime s + deltaTimeMs s now * timeScale"

definition frame_stepsToRun :: "LoopState \<Rightarrow> real \<Rightarrow> real \<Rightarrow> int" where
  "frame_stepsToRun s timeScale now = \<lfloor>frame_residue s timeScale now / PHYSICS_DT\<rfloor>"

definition loop :: "bool \<Rightarrow> real \<Rightarrow> SimInstance list \<Rightarrow> real \<Rightarrow> LoopState \<Rightarrow> LoopState \<times> nat" where
  "loop isPlaying timeScale insts now s =
     (let s1 = s\<lparr> lastFrameTime := now \<rparr>
      in if \<not> isPlaying then (s1\<lparr> residueTime := 0 \<rparr>, 0)
         else
           (let residue = frame_residue s timeScale now;
                stepsToRun = frame_stepsToRun s timeScale now;
                (stepsToRun', residue') =
                   (if stepsToRun > MAX_STEPS_PER_FRAME then (MAX_STEPS_PER_FRAME, 0)
                    else (stepsToRun, residue - of_int stepsToRun * PHYSICS_DT));
                n = nat stepsToRun'
            in (s1\<lparr> residueTime := residue',
                    physicsRefs := ((step_instances insts) ^^ n) (physicsRefs s1) \<rparr>, n)))"

text \<open>
  A sequence of frames, given by the time stamps passed to the callback: the state after
  the last frame with the total number of physics steps executed, and the sum of the
  frames' wall-clock deltas.
\<close>

fun run_frames ::
  "bool \<Rightarrow> real \<Rightarrow> SimInstance list \<Rightarrow> real list \<Rightarrow> LoopState \<Rightarrow> LoopState \<times> nat" where
  "run_frames isPlaying timeScale insts [] s = (s, 0)"
| "run_frames isPlaying timeScale insts (now # nows) s =
     (let (s1, n) = loop isPlaying timeScale insts now s;
          (s2, m) = run_frames isPlaying timeScale insts nows s1
      in (s2, n + m))"

fun total_delta :: "real list \<Rightarrow> LoopState \<Rightarrow> real" where
  "total_delta [] s = 0"
| "total_delta (now # nows) s =
     deltaTimeMs s now + total_delta nows (s\<lparr> lastFrameTime := now \<rparr>)"

text \<open>
  The time stamps of a frame sequence never run backwards (no wall-clock delta is
  negative), and no frame of a sequence played at a given speed triggers the overload
  clamp.
\<close>

fun monotone_frames :: "real list \<Rightarrow> LoopState \<Rightarrow> bool" where
  "monotone_frames [] s = True"
| "monotone_frames (now # nows) s =
     (0 \<le> deltaTimeMs s now \<and> monotone_frames nows (s\<lparr> lastFrameTime := now \<rparr>))"

fun no_overload :: "real \<Rightarrow> SimInstance list \<Rightarrow> real list \<Rightarrow> LoopState \<Rightarrow> bool" where
  "no_overload timeScale insts [] s = True"
| "no_overload timeScale insts (now # nows) s =
     (frame_stepsToRun s timeScale now \<le> MAX_STEPS_PER_FRAME
      \<and> no_overload timeScale insts nows (fst (loop True timeScale insts now s)))"

section \<open>Constants (constants.ts)\<close>

definition INITIAL_STATE_VECTOR :: StateVector where
  "INITIAL_STATE_VECTOR =
     [749.9842973712131, 149.3527787113375, 405.08061599015554, 135.97317102061024,
      144.32186565319813, 75.34345155268299, 117.70495107318685, 73.76400781737635,
      68.42882775454605, 42.75963410693713, 20.28639894876003, 10]"

definition INITIAL_TIME :: real where
  "INITIAL_TIME = 954.931700000081"

definition DEFAULT_PARAMS :: SimulationParams where
  "DEFAULT_PARAMS =
     \<lparr> Ras = 20, Rcs = 830, Rvs = 25, Ras_prox = 30,
       Rcp = 10, Rap = 13, Rvp = 15, Rap_prox = 15,
       Rmv = 2.5, Rtv = 2.5, Rda = 3,
       Cas = 1.83, Cvs = 70, Cas_prox = 0.54,
       Cap = 20, Cvp = 7, Cap_prox = 1, Cda = 0.52,
       LV_Ees = 2.21, LV_V0 = 5, LV_alpha = 0.029, LV_beta = 0.34,
       LV_Tmax = 300, LV_tau = 25, LV_AV_delay = 160,
       LA_Ees = 0.48, LA_V0 = 10, LA_alpha = 0.058, LA_beta = 0.44,
       LA_Tmax = 125, LA_tau = 20, LA_AV_delay = 0,
       RV_Ees = 0.74, RV_V0 = 5, RV_alpha = 0.028, RV_beta = 0.34,
       RV_Tmax = 300, RV_tau = 25, RV_AV_delay = 160,
       RA_Ees = 0.38, RA_V0 = 10, RA_alpha = 0.046, RA_beta = 0.44,
       RA_Tmax = 125, RA_tau = 20, RA_AV_delay = 0,
       HR = 60,
       Ravr = 100000, Ravs = 0,
       Rmvr = 100000, Rmvs = 0,
       Rpvr = 100000, Rpvs = 0,
       Rtvr = 100000, Rtvs = 0 \<rparr>"

text \<open>
  The physics state the initialisation effect creates for an instance (with the start
  time \<open>syncTime\<close> it has chosen): the canonical state vector, an empty buffer, and a
  copy of the instance's parameters.
\<close>

definition init_phys :: "real \<Rightarrow> SimInstance \<Rightarrow> PhysicsRefState" where
  "init_phys syncTime inst =
     \<lparr> phys_t = syncTime, phys_y = INITIAL_STATE_VECTOR, buffer = [],
       lastRenderX = 0, activeParams = params inst \<rparr>"

section \<open>Reference formulations\<close>

text \<open>
  The classical fourth-order Runge-Kutta step in vector notation, written from its
  textbook statement: the slopes \<open>k1\<close> to \<open>k4\<close> at the start, twice at the midpoint and
  at the end of the step, the new state \<open>y + dt / 6 * (k1 + 2 * k2 + 2 * k3 + k4)\<close>, and
  the auxiliary values of the evaluation at the start of the step.  It is compared with
  \<open>stepRK4\<close> below.
\<close>

definition vec_add :: "real list \<Rightarrow> real list \<Rightarrow> real list" where
  "vec_add xs ys = map2 (+) xs ys"

definition vec_scale :: "real \<Rightarrow> real list \<Rightarrow> real list" where
  "vec_scale c xs = map ((*) c) xs"

definition rk4_spec :: "real \<Rightarrow> StateVector \<Rightarrow> real \<Rightarrow> SimulationParams \<Rightarrow> StepResult" where
  "rk4_spec t y dt p =
     (let k1 = rhs_dy (rhs t y p);
          k2 = rhs_dy (rhs (t + dt / 2) (vec_add y (vec_scale (dt / 2) k1)) p);
          k3 = rhs_dy (rhs (t + dt / 2) (vec_add y (vec_scale (dt / 2) k2)) p);
          k4 = rhs_dy (rhs (t + dt) (vec_add y (vec_scale dt k3)) p)
      in \<lparr> tNext = t + dt,
           yNext = vec_add y (vec_scale (dt / 6)
                     (vec_add k1 (vec_add (vec_scale 2 k2) (vec_add (vec_scale 2 k3) k4)))),
           step_aux = rhs_aux (rhs t y p) \<rparr>)"



text \<open>
  The instance the application starts with, and a scheduler state whose previous frame
  was at 1000 ms and whose map holds the physics state of that instance.
\<close>

definition heart_A :: SimInstance where
  "heart_A = \<lparr> inst_id = ''1'', inst_name = ''Heart A'', color = ''#a855f7'',
               params = DEFAULT_PARAMS,
               targetVolume = getTotalVolume INITIAL_STATE_VECTOR, isVisible = True \<rparr>"

definition sched1 :: LoopState where
  "sched1 = \<lparr> lastFrameTime = 1000, residueTime = 0,
              physicsRefs = [inst_id heart_A \<mapsto> init_phys INITIAL_TIME heart_A] \<rparr>"

section \<open>Time stamps in double precision\<close>



text \<open>
  What one step of an instance does to its time and to the times recorded in its buffer,
  with every arithmetic result passed through \<open>rnd\<close>: \<^verbatim>\<open>tNext = t + dt\<close> in \<^verbatim>\<open>stepRK4\<close>,
  \<^verbatim>\<open>phys.buffer.push(output)\<close>, \<^verbatim>\<open>cutoffTime = tNext - bufferRequiredMs\<close> and the single
  guarded \<^verbatim>\<open>phys.buffer.shift()\<close>.  Nothing else in the program reads or writes the two.
  With \<open>rnd\<close> the identity this is the step of the exact model (lemma
  \<open>stamp_step_instance_step\<close>); with \<open>rnd = dbl\<close> it is the step as JavaScript
  computes it.
\<close>

definition stamp_step :: "(real \<Rightarrow> real) \<Rightarrow> real \<times> real list \<Rightarrow> real \<times> real list" where
  "stamp_step rnd = (\<lambda>(t, buf).
     (let tNext = rnd (t + PHYSICS_DT);
          bufferRequiredMs = 21000;
          buf1 = buf @ [tNext];
          cutoffTime = rnd (tNext - bufferRequiredMs)
      in (tNext, if length buf1 > 0 \<and> hd buf1 < cutoffTime then tl buf1 else buf1)))"



section \<open>The remainder operator\<close>

lemma js_rem_nonneg:
  assumes "0 \<le> a" "0 < b"
  shows "0 \<le> js_rem a b \<and> js_rem a b < b"
proof -
  define q where "q = real_of_int \<lfloor>a / b\<rfloor>"
  have q: "0 \<le> a / b" using assms by simp
  have r: "js_rem a b = a - b * q"
    using q by (simp add: js_rem_def js_trunc_def q_def)
  have "q \<le> a / b" by (simp add: q_def)
  then have "b * q \<le> b * (a / b)" using assms by (intro mult_left_mono) simp_all
  then have 1: "b * q \<le> a" using assms by simp
  have "a / b < q + 1" unfolding q_def by linarith
  then have "b * (a / b) < b * (q + 1)" using assms by (intro mult_strict_left_mono) simp_all
  then have 2: "a < b * q + b" using assms by (simp add: algebra_simps)
  show ?thesis using r 1 2 by simp
qed

lemma js_rem_nonpos:
  assumes "a \<le> 0" "0 < b"
  shows "- b < js_rem a b \<and> js_rem a b \<le> 0"
proof -
  define q where "q = real_of_int \<lceil>a / b\<rceil>"
  have "a / b \<le> 0" using assms by (simp add: divide_nonpos_pos)
  then have "a / b < 0 \<or> a / b = 0" by linarith
  then have "js_trunc (a / b) = \<lceil>a / b\<rceil>"
  proof
    assume "a / b < 0" then show ?thesis by (simp add: js_trunc_def)
  next
    assume z: "a / b = 0" show ?thesis unfolding js_trunc_def z by simp
  qed
  then have r: "js_rem a b = a - b * q"
    by (simp add: js_rem_def q_def)
  have "a / b \<le> q" by (simp add: q_def)
  then have "b * (a / b) \<le> b * q" using assms by (intro mult_left_mono) simp_all
  then have 1: "a \<le> b * q" using assms by simp
  have "q < a / b + 1" unfolding q_def by linarith
  then have "b * q < b * (a / b + 1)" using assms by (intro mult_strict_left_mono) simp_all
  then have 2: "b * q < a + b" using assms by (simp add: algebra_simps)
  show ?thesis using r 1 2 by simp
qed

lemma js_rem_idem:
  assumes "0 \<le> a" "0 < b"
  shows "js_rem (js_rem a b) b = js_rem a b"
proof -
  from js_rem_nonneg[OF assms] have r: "0 \<le> js_rem a b" "js_rem a b < b" by simp_all
  then have "\<lfloor>js_rem a b / b\<rfloor> = 0" using assms by (simp add: floor_eq_iff)
  then show ?thesis using r assms by (simp add: js_rem_def[of "js_rem a b"] js_trunc_def)
qed

section \<open>Valve flow at a zero gradient\<close>

lemma valve_flow_zero_closed: "100000 \<le> Rr \<Longrightarrow> valve_flow 0 R Rs Rr = 0"
  by (simp add: valve_flow_def)

lemma valve_flow_zero_leaky:
  "0 \<le> R \<Longrightarrow> Rr < 100000 \<Longrightarrow> valve_flow 0 R Rs Rr = - R / Rr"
  by (simp add: valve_flow_def Let_def)

text \<open>
  Claim C1 says that the valve flow at a zero pressure gradient is zero for all valid
  \<open>R\<close>, \<open>Rs\<close>, \<open>Rr\<close>, also when \<open>Rr\<close> is below the closed-valve threshold 100000.
  A zero gradient takes the reverse branch (\<open>deltaP > 0\<close> is false); above the threshold
  the result is zero (\<open>valve_flow_zero_closed\<close>), but below it the quadratic branch
  returns \<open>(- R - sqrt (R * R)) / (2 * Rr) = - R / Rr\<close> (\<open>valve_flow_zero_leaky\<close>).
  With the default valve resistance \<open>R = 2.5\<close> and a leak resistance \<open>Rr = 100\<close>
  the flow at zero gradient is \<open>- 1 / 40\<close>, not zero.
\<close>

theorem valve_flow_zero_gradient_nonzero:
  "valve_flow 0 (5 / 2) 0 100 = - 1 / 40 \<and> valve_flow 0 (5 / 2) 0 100 \<noteq> 0"
  by (simp add: valve_flow_zero_leaky)

section \<open>The activation function\<close>

lemma sqrt2_less_2: "sqrt 2 < 2"
  by (rule real_less_lsqrt) simp_all

lemma cos_8_pi_15_neg: "cos (8 * pi / 15) < 0"
proof -
  have "cos (pi - 7 * pi / 15) = - cos (7 * pi / 15)" by (rule cos_pi_minus)
  moreover have "pi - 7 * pi / 15 = 8 * pi / 15" by (simp add: field_simps)
  moreover have "0 < cos (7 * pi / 15)" by (rule cos_gt_zero_pi) (simp_all add: field_simps)
  ultimately show ?thesis by simp
qed

lemma e_func_neg160: "1 / 2 < e_func (-160) 300 25 60"
proof -
  define c where "c = cos (8 * pi / 15)"
  define e where "e = exp (- 22 :: real)"
  have c: "c < 0" unfolding c_def by (rule cos_8_pi_15_neg)
  have e: "0 < e" "e \<le> 1" unfolding e_def by simp_all
  have "(1 - c) * (1 - e / 2) + e - 1 = - c * (1 - e / 2) + e / 2" by (simp add: field_simps)
  moreover have "0 < - c * (1 - e / 2)" using c e by (intro mult_pos_pos) simp_all
  ultimately have "1 < (1 - c) * (1 - e / 2) + e" using e by linarith
  then show ?thesis
    by (simp add: e_func_def Let_def js_rem_def js_trunc_def e_phase_def e_rising_def c_def e_def)
qed

lemma e_func_840: "e_func 840 300 25 60 < 1 / 2"
proof -
  define e where "e = exp (- (201 / 10) :: real)"
  have "exp (201 / 10 :: real) \<ge> 1 + 201 / 10" by (rule exp_ge_add_one_self)
  then have "exp (- (201 / 10) :: real) \<le> 1 / (1 + 201 / 10)"
    by (simp add: exp_minus field_simps)
  then have e: "e \<le> 10 / 211" "0 < e" by (simp_all add: e_def)
  have "e * (2 + sqrt 2) \<le> (10 / 211) * (2 + sqrt 2)"
    using e sqrt2_less_2 by (intro mult_right_mono) simp_all
  also have "\<dots> < (10 / 211) * 4" using sqrt2_less_2 by simp
  finally have "e * (2 + sqrt 2) < 2" by simp
  then show ?thesis
    by (simp add: e_func_def Let_def js_rem_def js_trunc_def e_phase_def e_tail_def e_def mult.commute)
qed

text \<open>
  For a time that is not negative the reduced time lies in \<open>[0, T)\<close> and the activation
  depends on the time only through it.
\<close>

lemma e_func_nonneg_time:
  assumes "0 \<le> t'" "0 < hr"
  shows "0 \<le> js_rem t' (60000 / hr) \<and> js_rem t' (60000 / hr) < 60000 / hr
         \<and> e_func (js_rem t' (60000 / hr)) Tmax tau hr = e_func t' Tmax tau hr"
proof -
  have T: "0 < 60000 / hr" using assms by simp
  show ?thesis
    using js_rem_nonneg[OF assms(1) T] js_rem_idem[OF assms(1) T]
    by (simp add: e_func_def Let_def)
qed

text \<open>
  Claim C3 says that for every time, negative ones included, the activation function
  reduces the time to a phase in \<open>[0, T)\<close>, so that \<open>e(t) = e(t mod T)\<close> with a
  non-negative \<open>t mod T\<close>.  The code reduces the time with the remainder operator, which
  keeps the sign of the time: at \<open>t = 0\<close> with the default left-ventricle delay of 160 ms
  the chamber pressure model calls the activation function at \<open>- 160\<close>, the reduced time
  is \<open>- 160\<close> (not 840), the rising branch is taken, and the value is above \<open>1 / 2\<close>,
  whereas the activation at phase 840 of the same beat is below \<open>1 / 2\<close>.
\<close>

theorem e_func_negative_time_not_normalized:
  "js_rem (0 - LV_AV_delay DEFAULT_PARAMS) (60000 / HR DEFAULT_PARAMS) = - 160
   \<and> 1 / 2 < e_func (- 160) 300 25 60
   \<and> e_func 840 300 25 60 < 1 / 2"
  using e_func_neg160 e_func_840
  by (simp add: DEFAULT_PARAMS_def js_rem_def js_trunc_def)

subsection \<open>Continuity at the regime boundaries\<close>

lemma isCont_if_less:
  fixes a :: real and f g :: "real \<Rightarrow> real"
  assumes f: "isCont f a" and g: "isCont g a" and eq: "f a = g a"
  shows "isCont (\<lambda>x. if x < a then f x else g x) a"
proof -
  have fl: "(f \<longlongrightarrow> g a) (at_left a)"
    using f eq by (simp add: isCont_def filterlim_at_split)
  have gr: "(g \<longlongrightarrow> g a) (at_right a)"
    using g by (simp add: isCont_def filterlim_at_split)
  have l: "((\<lambda>x. if x < a then f x else g x) \<longlongrightarrow> g a) (at_left a)"
    by (subst filterlim_cong[OF refl refl, where g=f]) (simp_all add: eventually_at_filter fl)
  have r: "((\<lambda>x. if x < a then f x else g x) \<longlongrightarrow> g a) (at_right a)"
    by (subst filterlim_cong[OF refl refl, where g=g]) (simp_all add: eventually_at_filter gr)
  show ?thesis
    unfolding isCont_def using filterlim_split_at[OF l r] by simp
qed

lemma cos_9_pi_4: "cos (9 * pi / 4) = sqrt 2 / 2"
proof -
  have "cos (9 * pi / 4) = cos (pi / 4 + 2 * pi)" by (simp add: field_simps)
  also have "\<dots> = cos (pi / 4)" by (rule cos_periodic)
  finally show ?thesis by (simp add: cos_45)
qed

lemma isCont_e_rising: "Tmax \<noteq> 0 \<Longrightarrow> tau \<noteq> 0 \<Longrightarrow> isCont (e_rising T Tmax tau) x"
  unfolding e_rising_def Let_def by (intro continuous_intros) simp_all

lemma isCont_e_falling: "Tmax \<noteq> 0 \<Longrightarrow> isCont (e_falling Tmax) x"
  unfolding e_falling_def by (intro continuous_intros) simp_all

lemma isCont_e_tail: "tau \<noteq> 0 \<Longrightarrow> isCont (e_tail Tmax tau) x"
  unfolding e_tail_def by (intro continuous_intros) simp_all

lemma e_rising_at_Tmax: "Tmax \<noteq> 0 \<Longrightarrow> e_rising T Tmax tau Tmax = 1"
  by (simp add: e_rising_def Let_def)

lemma e_falling_at_Tmax: "Tmax \<noteq> 0 \<Longrightarrow> e_falling Tmax Tmax = 1"
  by (simp add: e_falling_def)

lemma e_falling_at_9_8: "Tmax \<noteq> 0 \<Longrightarrow> e_falling Tmax (9 * Tmax / 8) = (2 + sqrt 2) / 4"
  by (simp add: e_falling_def cos_9_pi_4)

lemma e_tail_at_9_8: "e_tail Tmax tau (9 * Tmax / 8) = (2 + sqrt 2) / 4"
  by (simp add: e_tail_def)

lemma isCont_e_phase_Tmax:
  assumes "0 < Tmax" "0 < tau"
  shows "isCont (e_phase T Tmax tau) Tmax"
proof -
  let ?G = "\<lambda>t. if t < 9 * Tmax / 8 then e_falling Tmax t else e_tail Tmax tau t"
  have lt: "Tmax < 9 * Tmax / 8" using assms by simp
  have "\<forall>\<^sub>F t in nhds Tmax. t < 9 * Tmax / 8"
    by (rule order_tendstoD(2)[OF filterlim_ident lt])
  then have "\<forall>\<^sub>F t in nhds Tmax. ?G t = e_falling Tmax t"
    by (rule eventually_mono) simp
  then have G: "isCont ?G Tmax"
    using assms by (simp add: isCont_cong isCont_e_falling)
  have "isCont (\<lambda>t. if t < Tmax then e_rising T Tmax tau t else ?G t) Tmax"
    using assms lt
    by (intro isCont_if_less isCont_e_rising G)
       (simp_all add: e_rising_at_Tmax e_falling_at_Tmax)
  then show ?thesis
    by (simp add: e_phase_def[abs_def])
qed

lemma isCont_e_phase_9_8:
  assumes "0 < Tmax" "0 < tau"
  shows "isCont (e_phase T Tmax tau) (9 * Tmax / 8)"
proof -
  let ?a = "9 * Tmax / 8"
  let ?G = "\<lambda>t. if t < ?a then e_falling Tmax t else e_tail Tmax tau t"
  have lt: "Tmax < ?a" using assms by simp
  have "\<forall>\<^sub>F t in nhds ?a. Tmax < t"
    by (rule order_tendstoD(1)[OF filterlim_ident lt])
  then have ev: "\<forall>\<^sub>F t in nhds ?a. e_phase T Tmax tau t = ?G t"
    by (rule eventually_mono) (simp add: e_phase_def)
  have "isCont ?G ?a"
    using assms
    by (intro isCont_if_less isCont_e_falling isCont_e_tail)
       (simp_all add: e_falling_at_9_8 e_tail_at_9_8)
  then show ?thesis
    using ev by (simp add: isCont_cong)
qed

text \<open>
  Claim C6: for all positive \<open>Tmax\<close>, \<open>tau\<close> and heart rate, the branch formulas of the
  activation function agree where they meet.  At phase \<open>Tmax\<close> the rising formula and the
  falling raised cosine both give 1; at phase \<open>9 * Tmax / 8\<close> the falling raised cosine
  and the exponential tail both give \<open>(2 + sqrt 2) / 4\<close>; hence the activation, as a
  function of the phase, is continuous at both boundaries.
\<close>

theorem e_func_continuous_at_boundaries:
  assumes "0 < Tmax" "0 < tau" "0 < hr"
  shows "e_rising (60000 / hr) Tmax tau Tmax = 1
         \<and> e_falling Tmax Tmax = 1
         \<and> e_falling Tmax (9 * Tmax / 8) = (2 + sqrt 2) / 4
         \<and> e_tail Tmax tau (9 * Tmax / 8) = (2 + sqrt 2) / 4
         \<and> isCont (e_phase (60000 / hr) Tmax tau) Tmax
         \<and> isCont (e_phase (60000 / hr) Tmax tau) (9 * Tmax / 8)"
  using assms
  by (simp add: e_rising_at_Tmax e_falling_at_Tmax e_falling_at_9_8 e_tail_at_9_8
                isCont_e_phase_Tmax isCont_e_phase_9_8)

theorem e_func_continuous_at_boundaries_witness:
  "(0::real) < 300 \<and> (0::real) < 25 \<and> (0::real) < 60
   \<and> e_rising (60000 / 60) 300 25 300 = 1
   \<and> e_falling 300 300 = 1
   \<and> e_falling 300 (9 * 300 / 8) = (2 + sqrt 2) / 4
   \<and> e_tail 300 25 (9 * 300 / 8) = (2 + sqrt 2) / 4
   \<and> isCont (e_phase (60000 / 60) 300 25) 300
   \<and> isCont (e_phase (60000 / 60) 300 25) (9 * 300 / 8)"
  using e_func_continuous_at_boundaries [of 300 25 60] by simp

section \<open>The RK4 step\<close>

lemma rhs_dy_length: "length (rhs_dy (rhs t y p)) = 12"
  by (simp add: rhs_def Let_def)

lemma rhs_dy_sum: "sum_list (rhs_dy (rhs t y p)) = 0"
  by (simp add: rhs_def Let_def)

lemma getTotalVolume_sum_list: "getTotalVolume y = sum_list y"
proof -
  have "foldl (\<lambda>acc val. acc + val) a y = a + sum_list y" for a :: real
    by (induction y arbitrary: a) simp_all
  then show ?thesis by (simp add: getTotalVolume_def)
qed

lemma js_map_length: "length (js_map f xs) = length xs"
  by (simp add: js_map_def)

lemma js_map_nth: "i < length xs \<Longrightarrow> js_map f xs ! i = f (xs ! i) i"
  by (simp add: js_map_def)

lemma js_map_axpy:
  assumes "length k = length y"
  shows "js_map (\<lambda>val i. val + c * k ! i) y = vec_add y (vec_scale c k)"
  using assms
  by (intro nth_equalityI) (simp_all add: js_map_length js_map_nth vec_add_def vec_scale_def)

lemma sum_list_vec_add:
  "length xs = length ys \<Longrightarrow> sum_list (vec_add xs ys) = sum_list xs + sum_list ys"
  unfolding vec_add_def
  by (induction xs ys rule: list_induct2) simp_all

lemma sum_list_vec_scale: "sum_list (vec_scale c xs) = c * sum_list xs"
  by (simp add: vec_scale_def sum_list_const_mult)

lemma vec_add_length: "length (vec_add xs ys) = min (length xs) (length ys)"
  by (simp add: vec_add_def)

lemma vec_scale_length: "length (vec_scale c xs) = length xs"
  by (simp add: vec_scale_def)

lemma stepRK4_refines:
  assumes "length y = 12"
  shows "stepRK4 t y dt p = rk4_spec t y dt p"
proof -
  have a: "js_map (\<lambda>val i. val + dt * k ! i / 2) y = vec_add y (vec_scale (dt / 2) k)"
    if "length k = 12" for k
    using js_map_axpy[of k y "dt / 2"] that assms by simp
  have b: "js_map (\<lambda>val i. val + dt * k ! i) y = vec_add y (vec_scale dt k)"
    if "length k = 12" for k
    using js_map_axpy[of k y dt] that assms by simp
  have c: "js_map (\<lambda>val i. val + dt * (k1 ! i + 2 * k2 ! i + 2 * k3 ! i + k4 ! i) / 6) y
           = vec_add y (vec_scale (dt / 6)
                     (vec_add k1 (vec_add (vec_scale 2 k2) (vec_add (vec_scale 2 k3) k4))))"
    if "length k1 = 12" "length k2 = 12" "length k3 = 12" "length k4 = 12" for k1 k2 k3 k4
    using that assms
    by (intro nth_equalityI)
       (simp_all add: js_map_length js_map_nth vec_add_def vec_scale_def)
  show ?thesis
    unfolding stepRK4_def rk4_spec_def Let_def
    by (simp add: a b c rhs_dy_length)
qed

lemma stepRK4_total_volume:
  assumes "length y = 12"
  shows "getTotalVolume (yNext (stepRK4 t y dt p)) = getTotalVolume y"
  unfolding stepRK4_refines[OF assms] rk4_spec_def Let_def getTotalVolume_sum_list
  using assms
  by (simp add: sum_list_vec_add sum_list_vec_scale vec_add_length vec_scale_length
                rhs_dy_length rhs_dy_sum)

lemma stepRK4_tNext: "tNext (stepRK4 t y dt p) = t + dt"
  by (simp add: stepRK4_def Let_def)

lemma stepRK4_aux: "step_aux (stepRK4 t y dt p) = rhs_aux (rhs t y p)"
  by (simp add: stepRK4_def Let_def)

lemma stepRK4_length: "length (yNext (stepRK4 t y dt p)) = length y"
  by (simp add: stepRK4_def Let_def js_map_length)

text \<open>
  Claim C9: for every \<open>t\<close>, state vector \<open>y\<close> (twelve entries), \<open>dt\<close> and \<open>p\<close> the
  stepper returns \<open>tNext = t + dt\<close>, the next state
  \<open>y + dt * (k1 + 2 * k2 + 2 * k3 + k4) / 6\<close> with the four standard slope evaluations at
  \<open>(t, y)\<close>, \<open>(t + dt / 2, y + dt * k1 / 2)\<close>, \<open>(t + dt / 2, y + dt * k2 / 2)\<close> and
  \<open>(t + dt, y + dt * k3)\<close>, and the auxiliary pressures of the first evaluation, the one
  at the start of the step.  The index-wise code is compared with the vector formulation
  \<open>rk4_spec\<close>.
\<close>

theorem stepRK4_is_classical_rk4:
  assumes "length y = 12"
  shows "stepRK4 t y dt p = rk4_spec t y dt p
         \<and> tNext (stepRK4 t y dt p) = t + dt
         \<and> length (yNext (stepRK4 t y dt p)) = 12
         \<and> step_aux (stepRK4 t y dt p) = rhs_aux (rhs t y p)"
proof (intro conjI)
  show "stepRK4 t y dt p = rk4_spec t y dt p" by (rule stepRK4_refines[OF assms])
  show "tNext (stepRK4 t y dt p) = t + dt" by (rule stepRK4_tNext)
  show "length (yNext (stepRK4 t y dt p)) = 12" using assms by (simp add: stepRK4_length)
  show "step_aux (stepRK4 t y dt p) = rhs_aux (rhs t y p)" by (rule stepRK4_aux)
qed

theorem stepRK4_is_classical_rk4_witness:
  "length INITIAL_STATE_VECTOR = 12
   \<and> stepRK4 INITIAL_TIME INITIAL_STATE_VECTOR 2 DEFAULT_PARAMS
       = rk4_spec INITIAL_TIME INITIAL_STATE_VECTOR 2 DEFAULT_PARAMS
   \<and> tNext (stepRK4 INITIAL_TIME INITIAL_STATE_VECTOR 2 DEFAULT_PARAMS) = INITIAL_TIME + 2
   \<and> length (yNext (stepRK4 INITIAL_TIME INITIAL_STATE_VECTOR 2 DEFAULT_PARAMS)) = 12
   \<and> step_aux (stepRK4 INITIAL_TIME INITIAL_STATE_VECTOR 2 DEFAULT_PARAMS)
       = rhs_aux (rhs INITIAL_TIME INITIAL_STATE_VECTOR DEFAULT_PARAMS)"
proof -
  have h: "length INITIAL_STATE_VECTOR = 12" by (simp add: INITIAL_STATE_VECTOR_def)
  show ?thesis
    using h stepRK4_is_classical_rk4 [OF h, of INITIAL_TIME 2 DEFAULT_PARAMS] by blast
qed

text \<open>
  Claim C10: for every \<open>t\<close>, \<open>y\<close> and \<open>p\<close> the twelve derivatives returned by the
  right-hand side sum to zero (each flow enters one component and leaves another, and
  the derivative of the reservoir, the last component, is zero); hence, in exact
  arithmetic, one RK4 step leaves the total volume of a twelve-entry state unchanged.
\<close>

theorem rhs_conserves_total_volume:
  assumes "length y = 12"
  shows "length (rhs_dy (rhs t y p)) = 12
         \<and> sum_list (rhs_dy (rhs t y p)) = 0
         \<and> getTotalVolume (rhs_dy (rhs t y p)) = 0
         \<and> rhs_dy (rhs t y p) ! 11 = 0
         \<and> getTotalVolume (yNext (stepRK4 t y dt p)) = getTotalVolume y"
proof -
  have "rhs_dy (rhs t y p) ! 11 = 0" by (simp add: rhs_def Let_def)
  then show ?thesis
    using stepRK4_total_volume[OF assms]
    by (simp add: rhs_dy_length rhs_dy_sum getTotalVolume_sum_list)
qed

theorem rhs_conserves_total_volume_witness:
  "length INITIAL_STATE_VECTOR = 12
   \<and> sum_list (rhs_dy (rhs INITIAL_TIME INITIAL_STATE_VECTOR DEFAULT_PARAMS)) = 0
   \<and> getTotalVolume (yNext (stepRK4 INITIAL_TIME INITIAL_STATE_VECTOR 2 DEFAULT_PARAMS))
       = getTotalVolume INITIAL_STATE_VECTOR"
proof -
  have h: "length INITIAL_STATE_VECTOR = 12" by (simp add: INITIAL_STATE_VECTOR_def)
  show ?thesis
    using h rhs_conserves_total_volume [OF h, of INITIAL_TIME DEFAULT_PARAMS 2] by blast
qed

section \<open>The commit at end-diastole\<close>

lemma end_diastole_not_systole: "isEndDiastole ph \<Longrightarrow> \<not> isEndSystole ph"
  by (simp add: isEndDiastole_def isEndSystole_def Let_def)

lemma instance_step_end_diastole:
  "isEndDiastole ph \<Longrightarrow> instance_step u ph = integrate_step (end_diastole u ph)"
  by (simp add: instance_step_def Let_def end_diastole_not_systole)

lemma instance_step_end_systole:
  "isEndSystole ph \<Longrightarrow> instance_step u ph = integrate_step (end_systole u ph)"
  using end_diastole_not_systole[of ph] by (auto simp add: instance_step_def Let_def)

lemma instance_step_plain:
  "\<not> isEndDiastole ph \<Longrightarrow> \<not> isEndSystole ph \<Longrightarrow> instance_step u ph = integrate_step ph"
  by (simp add: instance_step_def Let_def)

lemma integrate_step_activeParams: "activeParams (integrate_step ph) = activeParams ph"
  by (simp add: integrate_step_def Let_def)

lemma isEndDiastole_at_1000: "isEndDiastole (init_phys 1000 heart_A)"
  by (simp add: isEndDiastole_def init_phys_def heart_A_def DEFAULT_PARAMS_def Let_def
        js_rem_def js_trunc_def PHYSICS_DT_def)

text \<open>
  Claim C2 says that the end-diastole commit copies every resistance of the live
  parameters into the active ones, the eight valve-leak resistances included.  The block
  assigns the heart rate, the eleven segment and valve resistances, the seven
  compliances and the four \<open>Ees\<close>/\<open>V0\<close> pairs; no assignment mentions a valve-leak
  resistance.  With the aortic regurgitation resistance \<open>Ravr\<close> edited to 50 in the live
  parameters, the step at \<open>t = 1000\<close> (where the phase wraps) leaves the active \<open>Ravr\<close>
  at 100000.
\<close>

theorem end_diastole_keeps_active_Ravr:
  "isEndDiastole (init_phys 1000 heart_A)
   \<and> Ravr (params (heart_A\<lparr>params := DEFAULT_PARAMS\<lparr>Ravr := 50\<rparr>\<rparr>)) = 50
   \<and> Ravr (activeParams (instance_step (heart_A\<lparr>params := DEFAULT_PARAMS\<lparr>Ravr := 50\<rparr>\<rparr>)
                                        (init_phys 1000 heart_A))) = 100000"
  using isEndDiastole_at_1000
  by (simp add: instance_step_end_diastole integrate_step_activeParams end_diastole_def
        commit_end_diastole_def init_phys_def heart_A_def DEFAULT_PARAMS_def)

text \<open>
  Claim C2, amended: when the end-diastole event fires, the step copies from the live
  parameters into the active ones the heart rate, the eleven resistances \<open>Ras\<close>, \<open>Rcs\<close>,
  \<open>Rvs\<close>, \<open>Ras_prox\<close>, \<open>Rda\<close>, \<open>Rap\<close>, \<open>Rvp\<close>, \<open>Rap_prox\<close>, \<open>Rcp\<close>, \<open>Rmv\<close>, \<open>Rtv\<close>, all
  seven compliances and the \<open>Ees\<close>/\<open>V0\<close> pair of each of the four chambers; the eight
  valve-leak resistances of the active parameters keep the values they had.
\<close>

theorem end_diastole_commit_fields:
  assumes "isEndDiastole phys"
  shows "activeParams (instance_step uiInst phys)
           = commit_end_diastole (params uiInst) (activeParams phys)
   \<and> HR (activeParams (instance_step uiInst phys)) = HR (params uiInst)
   \<and> Ras (activeParams (instance_step uiInst phys)) = Ras (params uiInst)
   \<and> Rcs (activeParams (instance_step uiInst phys)) = Rcs (params uiInst)
   \<and> Rvs (activeParams (instance_step uiInst phys)) = Rvs (params uiInst)
   \<and> Ras_prox (activeParams (instance_step uiInst phys)) = Ras_prox (params uiInst)
   \<and> Rda (activeParams (instance_step uiInst phys)) = Rda (params uiInst)
   \<and> Rap (activeParams (instance_step uiInst phys)) = Rap (params uiInst)
   \<and> Rvp (activeParams (instance_step uiInst phys)) = Rvp (params uiInst)
   \<and> Rap_prox (activeParams (instance_step uiInst phys)) = Rap_prox (params uiInst)
   \<and> Rcp (activeParams (instance_step uiInst phys)) = Rcp (params uiInst)
   \<and> Rmv (activeParams (instance_step uiInst phys)) = Rmv (params uiInst)
   \<and> Rtv (activeParams (instance_step uiInst phys)) = Rtv (params uiInst)
   \<and> Cas (activeParams (instance_step uiInst phys)) = Cas (params uiInst)
   \<and> Cvs (activeParams (instance_step uiInst phys)) = Cvs (params uiInst)
   \<and> Cas_prox (activeParams (instance_step uiInst phys)) = Cas_prox (params uiInst)
   \<and> Cda (activeParams (instance_step uiInst phys)) = Cda (params uiInst)
   \<and> Cap (activeParams (instance_step uiInst phys)) = Cap (params uiInst)
   \<and> Cvp (activeParams (instance_step uiInst phys)) = Cvp (params uiInst)
   \<and> Cap_prox (activeParams (instance_step uiInst phys)) = Cap_prox (params uiInst)
   \<and> LV_Ees (activeParams (instance_step uiInst phys)) = LV_Ees (params uiInst)
   \<and> LV_V0 (activeParams (instance_step uiInst phys)) = LV_V0 (params uiInst)
   \<and> RV_Ees (activeParams (instance_step uiInst phys)) = RV_Ees (params uiInst)
   \<and> RV_V0 (activeParams (instance_step uiInst phys)) = RV_V0 (params uiInst)
   \<and> LA_Ees (activeParams (instance_step uiInst phys)) = LA_Ees (params uiInst)
   \<and> LA_V0 (activeParams (instance_step uiInst phys)) = LA_V0 (params uiInst)
   \<and> RA_Ees (activeParams (instance_step uiInst phys)) = RA_Ees (params uiInst)
   \<and> RA_V0 (activeParams (instance_step uiInst phys)) = RA_V0 (params uiInst)
   \<and> Ravr (activeParams (instance_step uiInst phys)) = Ravr (activeParams phys)
   \<and> Ravs (activeParams (instance_step uiInst phys)) = Ravs (activeParams phys)
   \<and> Rmvr (activeParams (instance_step uiInst phys)) = Rmvr (activeParams phys)
   \<and> Rmvs (activeParams (instance_step uiInst phys)) = Rmvs (activeParams phys)
   \<and> Rpvr (activeParams (instance_step uiInst phys)) = Rpvr (activeParams phys)
   \<and> Rpvs (activeParams (instance_step uiInst phys)) = Rpvs (activeParams phys)
   \<and> Rtvr (activeParams (instance_step uiInst phys)) = Rtvr (activeParams phys)
   \<and> Rtvs (activeParams (instance_step uiInst phys)) = Rtvs (activeParams phys)"
  using assms
  by (simp add: instance_step_end_diastole integrate_step_activeParams end_diastole_def
        commit_end_diastole_def)

theorem end_diastole_commit_fields_witness:
  "isEndDiastole (init_phys 1000 heart_A)
   \<and> Rmv (activeParams (instance_step (heart_A\<lparr>params := DEFAULT_PARAMS\<lparr>Rmv := 7, Rmvr := 50\<rparr>\<rparr>)
                                       (init_phys 1000 heart_A))) = 7
   \<and> Rmvr (activeParams (instance_step (heart_A\<lparr>params := DEFAULT_PARAMS\<lparr>Rmv := 7, Rmvr := 50\<rparr>\<rparr>)
                                        (init_phys 1000 heart_A))) = 100000"
proof -
  let ?u = "heart_A\<lparr>params := DEFAULT_PARAMS\<lparr>Rmv := 7, Rmvr := 50\<rparr>\<rparr>"
  let ?ph = "init_phys 1000 heart_A"
  note c = end_diastole_commit_fields [OF isEndDiastole_at_1000, of ?u]
  have a: "Rmv (activeParams (instance_step ?u ?ph)) = Rmv (params ?u)"
    using c by blast
  have b: "Rmvr (activeParams (instance_step ?u ?ph)) = Rmvr (activeParams ?ph)"
    using c by blast
  have a': "Rmv (params ?u) = 7" by simp
  have b': "Rmvr (activeParams ?ph) = 100000"
    by (simp add: init_phys_def heart_A_def DEFAULT_PARAMS_def)
  show ?thesis
    using isEndDiastole_at_1000 a b unfolding a' b' by blast
qed



section \<open>The steps of one instance and the output buffer\<close>

lemma make_output_t: "out_t (make_output r) = tNext r"
  by (simp add: make_output_def Let_def)

lemma end_diastole_t_buffer: "phys_t (end_diastole u ph) = phys_t ph" "buffer (end_diastole u ph) = buffer ph"
  by (simp_all add: end_diastole_def)

lemma end_systole_t_buffer: "phys_t (end_systole u ph) = phys_t ph" "buffer (end_systole u ph) = buffer ph"
  "phys_y (end_systole u ph) = phys_y ph"
  by (simp_all add: end_systole_def)

lemma integrate_step_t: "phys_t (integrate_step ph) = phys_t ph + 2"
  by (simp add: integrate_step_def Let_def stepRK4_tNext PHYSICS_DT_def)

lemma integrate_step_buffer:
  "\<exists>out. out_t out = phys_t ph + 2 \<and> buffer (integrate_step ph) = push_trim out (buffer ph)"
  by (rule exI[of _ "make_output (stepRK4 (phys_t ph) (phys_y ph) PHYSICS_DT (activeParams ph))"])
     (simp add: integrate_step_def Let_def make_output_t stepRK4_tNext PHYSICS_DT_def)

lemma instance_step_t: "phys_t (instance_step u ph) = phys_t ph + 2"
  by (simp add: instance_step_def Let_def integrate_step_t end_diastole_t_buffer end_systole_t_buffer)

lemma instance_step_buffer:
  "\<exists>out. out_t out = phys_t ph + 2 \<and> buffer (instance_step u ph) = push_trim out (buffer ph)"
proof -
  define ph1 where "ph1 = (if isEndDiastole ph then end_diastole u ph else ph)"
  define ph2 where "ph2 = (if isEndSystole ph then end_systole u ph1 else ph1)"
  have 1: "phys_t ph2 = phys_t ph" "buffer ph2 = buffer ph"
    by (simp_all add: ph1_def ph2_def end_diastole_t_buffer end_systole_t_buffer)
  have 2: "instance_step u ph = integrate_step ph2"
    by (simp add: instance_step_def Let_def ph1_def ph2_def)
  show ?thesis
    using integrate_step_buffer[of ph2] unfolding 1 2 .
qed








lemma run_instance_snoc: "run_instance (us @ [u]) ph = instance_step u (run_instance us ph)"
  by (simp add: run_instance_def)


lemma run_instance_append: "run_instance (us @ vs) ph = run_instance vs (run_instance us ph)"
  by (simp add: run_instance_def)

lemma run_instance_replicate_Suc:
  "run_instance (replicate (Suc n) u) ph = instance_step u (run_instance (replicate n u) ph)"
  using run_instance_snoc[of "replicate n u" u ph] by (simp add: replicate_append_same)

lemma run_instance_t: "phys_t (run_instance us ph) = phys_t ph + 2 * real (length us)"
  by (induction us rule: rev_induct) (simp_all add: run_instance_snoc instance_step_t, simp add: run_instance_def)

subsection \<open>The time stamps in double precision\<close>



















lemma map_out_t_push_trim:
  "map out_t (push_trim out buf)
     = snd (stamp_step id (out_t out - PHYSICS_DT, map out_t buf))"
proof -
  have hd1: "out_t (hd (buf @ [out])) = hd (map out_t buf @ [out_t out])"
    by (cases buf) simp_all
  have tl1: "map out_t (tl (buf @ [out])) = tl (map out_t buf @ [out_t out])"
    by (cases buf) simp_all
  show ?thesis
    by (simp add: push_trim_def stamp_step_def Let_def hd1 tl1)
qed

lemma stamp_step_instance_step:
  "stamp_step id (phys_t ph, map out_t (buffer ph))
     = (phys_t (instance_step u ph), map out_t (buffer (instance_step u ph)))"
proof -
  from instance_step_buffer[of ph u] obtain out where
    out: "out_t out = phys_t ph + 2" "buffer (instance_step u ph) = push_trim out (buffer ph)"
    by blast
  have "fst (stamp_step id (phys_t ph, map out_t (buffer ph))) = phys_t (instance_step u ph)"
    by (simp add: stamp_step_def Let_def instance_step_t PHYSICS_DT_def)
  moreover have "snd (stamp_step id (phys_t ph, map out_t (buffer ph)))
                 = map out_t (buffer (instance_step u ph))"
    unfolding out(2) map_out_t_push_trim out(1) by (simp add: PHYSICS_DT_def)
  ultimately show ?thesis by (simp add: prod_eq_iff)
qed






section \<open>The scheduler\<close>

lemma loop_lastFrameTime: "lastFrameTime (fst (loop ip ts insts now s)) = now"
  by (simp add: loop_def Let_def split: prod.splits)

lemma loop_playing_residue:
  "residueTime (fst (loop True ts insts now s)) =
     (if frame_stepsToRun s ts now > 20 then 0
      else frame_residue s ts now - of_int (frame_stepsToRun s ts now) * 2)"
  by (simp add: loop_def Let_def MAX_STEPS_PER_FRAME_def PHYSICS_DT_def)

lemma loop_playing_steps:
  "snd (loop True ts insts now s) =
     (if frame_stepsToRun s ts now > 20 then 20 else nat (frame_stepsToRun s ts now))"
  by (simp add: loop_def Let_def MAX_STEPS_PER_FRAME_def PHYSICS_DT_def)

lemma step_instances_Cons:
  "step_instances (v # insts) refs =
     step_instances insts (case refs (inst_id v) of None \<Rightarrow> refs
                           | Some phys \<Rightarrow> refs(inst_id v \<mapsto> instance_step v phys))"
  by (simp add: step_instances_def)

lemma step_instances_other:
  "k \<notin> inst_id ` set insts \<Longrightarrow> step_instances insts refs k = refs k"
proof (induction insts arbitrary: refs)
  case Nil
  show ?case by (simp add: step_instances_def)
next
  case (Cons v insts)
  then show ?case
    by (simp add: step_instances_Cons split: option.splits)
qed

lemma step_instances_apply:
  assumes "distinct (map inst_id insts)" "u \<in> set insts" "refs (inst_id u) = Some ph"
  shows "step_instances insts refs (inst_id u) = Some (instance_step u ph)"
  using assms
proof (induction insts arbitrary: refs)
  case Nil
  then show ?case by simp
next
  case (Cons v insts)
  show ?case
  proof (cases "u = v")
    case True
    have "inst_id u \<notin> inst_id ` set insts" using Cons.prems(1) True by simp
    then show ?thesis
      using Cons.prems(3) True
      by (simp add: step_instances_Cons step_instances_other)
  next
    case False
    then have u: "u \<in> set insts" using Cons.prems(2) by simp
    then have ne: "inst_id v \<noteq> inst_id u" using Cons.prems(1) by auto
    have d: "distinct (map inst_id insts)" using Cons.prems(1) by simp
    show ?thesis
      using Cons.IH[OF d u] Cons.prems(3) ne
      by (simp add: step_instances_Cons split: option.splits)
  qed
qed

lemma funpow_step_instances_apply:
  assumes "distinct (map inst_id insts)" "u \<in> set insts" "refs (inst_id u) = Some ph"
  shows "((step_instances insts) ^^ n) refs (inst_id u) = Some (run_instance (replicate n u) ph)"
proof (induction n)
  case 0
  show ?case using assms(3) by (simp add: run_instance_def)
next
  case (Suc n)
  show ?case
    using step_instances_apply[of insts u "(step_instances insts ^^ n) refs"
            "run_instance (replicate n u) ph", OF assms(1,2) Suc.IH]
    by (simp del: replicate.simps add: run_instance_replicate_Suc)
qed

lemma loop_physicsRefs:
  "physicsRefs (fst (loop ip ts insts now s))
     = ((step_instances insts) ^^ snd (loop ip ts insts now s)) (physicsRefs s)"
  by (simp add: loop_def Let_def split: prod.splits)

lemma run_frames_physicsRefs:
  "physicsRefs (fst (run_frames ip ts insts nows s))
     = ((step_instances insts) ^^ snd (run_frames ip ts insts nows s)) (physicsRefs s)"
proof (induction nows arbitrary: s)
  case Nil
  show ?case by simp
next
  case (Cons now nows)
  let ?n = "snd (loop ip ts insts now s)"
  let ?m = "snd (run_frames ip ts insts nows (fst (loop ip ts insts now s)))"
  have "(step_instances insts ^^ (?n + ?m)) (physicsRefs s)
        = (step_instances insts ^^ ?m) ((step_instances insts ^^ ?n) (physicsRefs s))"
    by (subst add.commute) (simp add: funpow_add)
  then show ?case
    using Cons.IH[of "fst (loop ip ts insts now s)"] loop_physicsRefs[of ip ts insts now s]
    by (simp add: case_prod_unfold Let_def)
qed

text \<open>
  Claim C4: in a frame of the playing state, if the accumulated time divided by the
  2 ms step gives more than 20 steps, exactly 20 physics steps are executed and the
  accumulator is reset to 0; otherwise \<open>stepsToRun\<close> steps are executed (the \<^verbatim>\<open>for\<close> loop
  makes \<open>nat stepsToRun\<close> iterations, which is \<open>stepsToRun\<close> for an accumulator that is
  not negative) and \<open>stepsToRun * 2\<close> is subtracted from the accumulator.  The steps are
  executed on the physics states: the map after the frame is that many passes over the
  instances, every instance with a physics state has made that many steps, and its time
  has advanced by 2 ms for each.  In particular a frame with a wall-clock delta of
  10000 ms at speed 1 executes exactly 20 steps and leaves the accumulator at 0.
\<close>

theorem loop_steps_and_residue:
  "(if frame_stepsToRun s ts now > 20
    then snd (loop True ts insts now s) = 20 \<and> residueTime (fst (loop True ts insts now s)) = 0
    else snd (loop True ts insts now s) = nat (frame_stepsToRun s ts now)
         \<and> residueTime (fst (loop True ts insts now s))
             = frame_residue s ts now - of_int (frame_stepsToRun s ts now) * 2)
   \<and> physicsRefs (fst (loop True ts insts now s))
       = ((step_instances insts) ^^ snd (loop True ts insts now s)) (physicsRefs s)
   \<and> (\<forall>u ph. distinct (map inst_id insts) \<and> u \<in> set insts \<and> physicsRefs s (inst_id u) = Some ph
        \<longrightarrow> physicsRefs (fst (loop True ts insts now s)) (inst_id u)
              = Some (run_instance (replicate (snd (loop True ts insts now s)) u) ph)
            \<and> phys_t (run_instance (replicate (snd (loop True ts insts now s)) u) ph)
              = phys_t ph + 2 * real (snd (loop True ts insts now s)))
   \<and> (0 \<le> frame_residue s ts now \<and> frame_stepsToRun s ts now \<le> 20
        \<longrightarrow> int (snd (loop True ts insts now s)) = frame_stepsToRun s ts now)
   \<and> (0 \<le> residueTime s \<and> deltaTimeMs s now = 10000 \<and> ts = 1
        \<longrightarrow> snd (loop True ts insts now s) = 20
            \<and> residueTime (fst (loop True ts insts now s)) = 0)"
proof -
  have a: "0 \<le> frame_stepsToRun s ts now" if "0 \<le> frame_residue s ts now"
    using that by (simp add: frame_stepsToRun_def PHYSICS_DT_def)
  have b: "20 < frame_stepsToRun s ts now"
    if "0 \<le> residueTime s" "deltaTimeMs s now = 10000" "ts = 1"
  proof -
    have "(21::real) \<le> frame_residue s ts now / PHYSICS_DT"
      using that by (simp add: frame_residue_def PHYSICS_DT_def)
    then have "21 \<le> frame_stepsToRun s ts now"
      unfolding frame_stepsToRun_def by (simp add: le_floor_iff)
    then show ?thesis by simp
  qed
  have c: "physicsRefs (fst (loop True ts insts now s)) (inst_id u)
              = Some (run_instance (replicate (snd (loop True ts insts now s)) u) ph)
            \<and> phys_t (run_instance (replicate (snd (loop True ts insts now s)) u) ph)
              = phys_t ph + 2 * real (snd (loop True ts insts now s))"
    if "distinct (map inst_id insts)" "u \<in> set insts" "physicsRefs s (inst_id u) = Some ph"
    for u ph
    using funpow_step_instances_apply[of insts u "physicsRefs s" ph
            "snd (loop True ts insts now s)", OF that]
    by (simp add: loop_physicsRefs run_instance_t)
  have d: "(if frame_stepsToRun s ts now > 20
    then snd (loop True ts insts now s) = 20 \<and> residueTime (fst (loop True ts insts now s)) = 0
    else snd (loop True ts insts now s) = nat (frame_stepsToRun s ts now)
         \<and> residueTime (fst (loop True ts insts now s))
             = frame_residue s ts now - of_int (frame_stepsToRun s ts now) * 2)"
    by (simp add: loop_playing_residue loop_playing_steps)
  have e: "0 \<le> frame_residue s ts now \<and> frame_stepsToRun s ts now \<le> 20
        \<longrightarrow> int (snd (loop True ts insts now s)) = frame_stepsToRun s ts now"
    using a by (auto simp add: loop_playing_steps)
  have f: "0 \<le> residueTime s \<and> deltaTimeMs s now = 10000 \<and> ts = 1
        \<longrightarrow> snd (loop True ts insts now s) = 20
            \<and> residueTime (fst (loop True ts insts now s)) = 0"
    using b by (auto simp add: loop_playing_residue loop_playing_steps)
  show ?thesis
    using c d e f loop_physicsRefs[of True ts insts now s] by blast
qed

lemma sched1_simps:
  "lastFrameTime sched1 = 1000" "residueTime sched1 = 0"
  "physicsRefs sched1 (inst_id heart_A) = Some (init_phys INITIAL_TIME heart_A)"
  by (simp_all add: sched1_def)

theorem loop_steps_and_residue_witness:
  "0 \<le> residueTime sched1 \<and> deltaTimeMs sched1 11000 = 10000
   \<and> distinct (map inst_id [heart_A]) \<and> heart_A \<in> set [heart_A]
   \<and> physicsRefs sched1 (inst_id heart_A) = Some (init_phys INITIAL_TIME heart_A)
   \<and> snd (loop True 1 [heart_A] 11000 sched1) = 20
   \<and> residueTime (fst (loop True 1 [heart_A] 11000 sched1)) = 0
   \<and> physicsRefs (fst (loop True 1 [heart_A] 11000 sched1)) (inst_id heart_A)
       = Some (run_instance (replicate 20 heart_A) (init_phys INITIAL_TIME heart_A))
   \<and> phys_t (run_instance (replicate 20 heart_A) (init_phys INITIAL_TIME heart_A))
       = phys_t (init_phys INITIAL_TIME heart_A) + 40
   \<and> 0 \<le> frame_residue (sched1\<lparr>residueTime := 1 / 2\<rparr>) 1 1017
   \<and> frame_stepsToRun (sched1\<lparr>residueTime := 1 / 2\<rparr>) 1 1017 = 8
   \<and> snd (loop True 1 [heart_A] 1017 (sched1\<lparr>residueTime := 1 / 2\<rparr>)) = 8
   \<and> residueTime (fst (loop True 1 [heart_A] 1017 (sched1\<lparr>residueTime := 1 / 2\<rparr>))) = 3 / 2"
proof -
  note A = loop_steps_and_residue [of sched1 1 11000 "[heart_A]"]
  note B = loop_steps_and_residue [of "sched1\<lparr>residueTime := 1 / 2\<rparr>" 1 1017 "[heart_A]"]
  have h: "0 \<le> residueTime sched1" "deltaTimeMs sched1 11000 = 10000"
    "distinct (map inst_id [heart_A])" "heart_A \<in> set [heart_A]"
    "physicsRefs sched1 (inst_id heart_A) = Some (init_phys INITIAL_TIME heart_A)"
    by (simp_all add: sched1_simps deltaTimeMs_def)
  have n: "snd (loop True 1 [heart_A] 11000 sched1) = 20
           \<and> residueTime (fst (loop True 1 [heart_A] 11000 sched1)) = 0"
    using A h(1,2) by blast
  have r: "physicsRefs (fst (loop True 1 [heart_A] 11000 sched1)) (inst_id heart_A)
       = Some (run_instance (replicate (snd (loop True 1 [heart_A] 11000 sched1)) heart_A)
                 (init_phys INITIAL_TIME heart_A))
   \<and> phys_t (run_instance (replicate (snd (loop True 1 [heart_A] 11000 sched1)) heart_A)
                 (init_phys INITIAL_TIME heart_A))
       = phys_t (init_phys INITIAL_TIME heart_A) + 2 * real (snd (loop True 1 [heart_A] 11000 sched1))"
    using A h(3,4,5) by blast
  have g: "0 \<le> frame_residue (sched1\<lparr>residueTime := 1 / 2\<rparr>) 1 1017"
     "frame_stepsToRun (sched1\<lparr>residueTime := 1 / 2\<rparr>) 1 1017 = 8"
    by (simp_all add: frame_stepsToRun_def frame_residue_def deltaTimeMs_def sched1_simps PHYSICS_DT_def)
  have m: "snd (loop True 1 [heart_A] 1017 (sched1\<lparr>residueTime := 1 / 2\<rparr>)) = 8
   \<and> residueTime (fst (loop True 1 [heart_A] 1017 (sched1\<lparr>residueTime := 1 / 2\<rparr>))) = 3 / 2"
    using B g by (simp add: frame_residue_def deltaTimeMs_def sched1_simps)
  show ?thesis
    using h n r g m by simp
qed

subsection \<open>Step conservation over a sequence of frames\<close>

lemma total_delta_cong:
  "lastFrameTime s = lastFrameTime s' \<Longrightarrow> total_delta nows s = total_delta nows s'"
  by (induction nows arbitrary: s s') (simp_all add: deltaTimeMs_def)

lemma monotone_frames_cong:
  "lastFrameTime s = lastFrameTime s' \<Longrightarrow> monotone_frames nows s = monotone_frames nows s'"
proof (induction nows arbitrary: s s')
  case Nil
  show ?case by simp
next
  case (Cons now nows)
  have "monotone_frames nows (s\<lparr>lastFrameTime := now\<rparr>)
        = monotone_frames nows (s'\<lparr>lastFrameTime := now\<rparr>)"
    by (rule Cons.IH) simp
  then show ?case using Cons.prems by (simp add: deltaTimeMs_def)
qed

lemma frame_step_balance:
  assumes r: "0 \<le> residueTime s" and d: "0 \<le> deltaTimeMs s now"
      and no: "frame_stepsToRun s 1 now \<le> MAX_STEPS_PER_FRAME"
  shows "2 * real (snd (loop True 1 insts now s)) + residueTime (fst (loop True 1 insts now s))
           = residueTime s + deltaTimeMs s now"
    and "0 \<le> residueTime (fst (loop True 1 insts now s))"
    and "residueTime (fst (loop True 1 insts now s)) < 2"
proof -
  define acc where "acc = frame_residue s 1 now"
  define k where "k = frame_stepsToRun s 1 now"
  have acc: "acc = residueTime s + deltaTimeMs s now" "0 \<le> acc"
    using r d by (simp_all add: acc_def frame_residue_def)
  have k: "k = \<lfloor>acc / 2\<rfloor>" by (simp add: k_def acc_def frame_stepsToRun_def PHYSICS_DT_def)
  have k0: "0 \<le> k" using acc k by simp
  have k20: "\<not> 20 < k" using no by (simp add: k_def MAX_STEPS_PER_FRAME_def)
  have lo: "real_of_int k \<le> acc / 2" unfolding k by (rule of_int_floor_le)
  have hi: "acc / 2 < real_of_int k + 1" unfolding k by linarith
  have n: "snd (loop True 1 insts now s) = nat k"
    using k20 by (simp add: loop_playing_steps k_def)
  have res: "residueTime (fst (loop True 1 insts now s)) = acc - real_of_int k * 2"
    using k20 by (simp add: loop_playing_residue k_def acc_def)
  have rn: "real (nat k) = real_of_int k" using k0 by simp
  show "2 * real (snd (loop True 1 insts now s)) + residueTime (fst (loop True 1 insts now s))
           = residueTime s + deltaTimeMs s now"
    unfolding n res rn using acc by simp
  show "0 \<le> residueTime (fst (loop True 1 insts now s))" unfolding res using lo by simp
  show "residueTime (fst (loop True 1 insts now s)) < 2" unfolding res using hi by simp
qed

lemma run_frames_balance:
  assumes "0 \<le> residueTime s" "residueTime s < 2"
      and "monotone_frames nows s" "no_overload 1 insts nows s"
  shows "2 * real (snd (run_frames True 1 insts nows s))
           + residueTime (fst (run_frames True 1 insts nows s))
         = residueTime s + total_delta nows s
       \<and> 0 \<le> residueTime (fst (run_frames True 1 insts nows s))
       \<and> residueTime (fst (run_frames True 1 insts nows s)) < 2"
  using assms
proof (induction nows arbitrary: s)
  case Nil
  then show ?case by simp
next
  case (Cons now nows)
  let ?s1 = "fst (loop True 1 insts now s)"
  from Cons.prems have d: "0 \<le> deltaTimeMs s now"
    and no: "frame_stepsToRun s 1 now \<le> MAX_STEPS_PER_FRAME"
    and mono: "monotone_frames nows (s\<lparr>lastFrameTime := now\<rparr>)"
    and no': "no_overload 1 insts nows ?s1"
    by simp_all
  note fb = frame_step_balance[OF Cons.prems(1) d no, of insts]
  have l: "lastFrameTime ?s1 = lastFrameTime (s\<lparr>lastFrameTime := now\<rparr>)"
    by (simp add: loop_lastFrameTime)
  have mono1: "monotone_frames nows ?s1"
    using mono monotone_frames_cong[OF l] by simp
  have td: "total_delta nows ?s1 = total_delta nows (s\<lparr>lastFrameTime := now\<rparr>)"
    by (rule total_delta_cong[OF l])
  note ih = Cons.IH[OF fb(2) fb(3) mono1 no']
  show ?case
    using ih fb(1) td
    by (simp add: case_prod_unfold Let_def)
qed

text \<open>
  Claim C7: for every finite sequence of frames played at speed 1 from a zero
  accumulator, none of which triggers the overload clamp, the total number of 2 ms
  physics steps executed equals \<open>floor (D / 2)\<close> within one step, \<open>D\<close> being the sum of
  the frames' wall-clock deltas (time stamps that never run backwards).  In exact
  arithmetic the two are equal.  The steps are executed on the physics states: after the
  frames the map is \<open>floor (D / 2)\<close> passes over the instances, and every instance with a
  physics state has made that many steps, its time advanced by 2 ms for each.
\<close>

theorem scheduler_step_conservation:
  assumes "residueTime s = 0" "monotone_frames nows s" "no_overload 1 insts nows s"
  shows "int (snd (run_frames True 1 insts nows s)) = \<lfloor>total_delta nows s / 2\<rfloor>
         \<and> \<bar>real (snd (run_frames True 1 insts nows s))
              - real_of_int \<lfloor>total_delta nows s / 2\<rfloor>\<bar> \<le> 1
         \<and> physicsRefs (fst (run_frames True 1 insts nows s))
             = ((step_instances insts) ^^ nat \<lfloor>total_delta nows s / 2\<rfloor>) (physicsRefs s)
         \<and> (\<forall>u ph. distinct (map inst_id insts) \<and> u \<in> set insts
                    \<and> physicsRefs s (inst_id u) = Some ph
              \<longrightarrow> physicsRefs (fst (run_frames True 1 insts nows s)) (inst_id u)
                    = Some (run_instance (replicate (nat \<lfloor>total_delta nows s / 2\<rfloor>) u) ph)
                  \<and> phys_t (run_instance (replicate (nat \<lfloor>total_delta nows s / 2\<rfloor>) u) ph)
                    = phys_t ph + 2 * real_of_int \<lfloor>total_delta nows s / 2\<rfloor>)"
proof -
  let ?n = "snd (run_frames True 1 insts nows s)"
  let ?r = "residueTime (fst (run_frames True 1 insts nows s))"
  let ?D = "\<lfloor>total_delta nows s / 2\<rfloor>"
  from run_frames_balance[OF _ _ assms(2,3)] assms(1)
  have b: "2 * real ?n + ?r = total_delta nows s" "0 \<le> ?r" "?r < 2" by simp_all
  have "real_of_int (int ?n) \<le> total_delta nows s / 2" using b by simp
  moreover have "total_delta nows s / 2 < real_of_int (int ?n) + 1" using b by simp
  ultimately have fl: "?D = int ?n" by (intro floor_unique) 
  then have n: "nat ?D = ?n" by simp
  have refs: "physicsRefs (fst (run_frames True 1 insts nows s))
             = ((step_instances insts) ^^ nat ?D) (physicsRefs s)"
    unfolding n by (rule run_frames_physicsRefs)
  have per: "physicsRefs (fst (run_frames True 1 insts nows s)) (inst_id u)
                    = Some (run_instance (replicate (nat ?D) u) ph)
                  \<and> phys_t (run_instance (replicate (nat ?D) u) ph)
                    = phys_t ph + 2 * real_of_int ?D"
    if "distinct (map inst_id insts)" "u \<in> set insts" "physicsRefs s (inst_id u) = Some ph"
    for u ph
    using funpow_step_instances_apply[of insts u "physicsRefs s" ph "nat ?D", OF that] fl
    by (simp add: refs run_instance_t)
  show ?thesis
    using fl refs per by simp
qed

theorem scheduler_step_conservation_witness:
  "residueTime sched1 = 0 \<and> monotone_frames [1017, 1033, 1050] sched1
   \<and> no_overload 1 [heart_A] [1017, 1033, 1050] sched1
   \<and> distinct (map inst_id [heart_A]) \<and> heart_A \<in> set [heart_A]
   \<and> physicsRefs sched1 (inst_id heart_A) = Some (init_phys INITIAL_TIME heart_A)
   \<and> total_delta [1017, 1033, 1050] sched1 = 50
   \<and> int (snd (run_frames True 1 [heart_A] [1017, 1033, 1050] sched1)) = 25
   \<and> physicsRefs (fst (run_frames True 1 [heart_A] [1017, 1033, 1050] sched1)) (inst_id heart_A)
       = Some (run_instance (replicate 25 heart_A) (init_phys INITIAL_TIME heart_A))
   \<and> phys_t (run_instance (replicate 25 heart_A) (init_phys INITIAL_TIME heart_A))
       = phys_t (init_phys INITIAL_TIME heart_A) + 50"
proof -
  have h1: "residueTime sched1 = 0" by (simp add: sched1_simps)
  have h2: "monotone_frames [1017, 1033, 1050] sched1"
    by (simp add: sched1_simps deltaTimeMs_def)
  have h3: "no_overload 1 [heart_A] [1017, 1033, 1050] sched1"
    by (simp add: sched1_simps deltaTimeMs_def frame_stepsToRun_def frame_residue_def
          PHYSICS_DT_def MAX_STEPS_PER_FRAME_def loop_playing_residue loop_lastFrameTime)
  have h4: "total_delta [1017, 1033, 1050] sched1 = 50"
    by (simp add: sched1_simps deltaTimeMs_def)
  have h5: "distinct (map inst_id [heart_A])" "heart_A \<in> set [heart_A]"
    "physicsRefs sched1 (inst_id heart_A) = Some (init_phys INITIAL_TIME heart_A)"
    by (simp_all add: sched1_simps)
  have fl: "\<lfloor>total_delta [1017, 1033, 1050] sched1 / 2\<rfloor> = 25" unfolding h4 by simp
  have fl': "2 * real_of_int (25::int) = 50" "nat (25::int) = 25" by simp_all
  note C = scheduler_step_conservation [OF h1 h2 h3, unfolded fl fl']
  have n: "int (snd (run_frames True 1 [heart_A] [1017, 1033, 1050] sched1)) = 25"
    using C by blast
  have r: "physicsRefs (fst (run_frames True 1 [heart_A] [1017, 1033, 1050] sched1)) (inst_id heart_A)
       = Some (run_instance (replicate 25 heart_A) (init_phys INITIAL_TIME heart_A))
   \<and> phys_t (run_instance (replicate 25 heart_A) (init_phys INITIAL_TIME heart_A))
       = phys_t (init_phys INITIAL_TIME heart_A) + 50"
    using C h5 by blast
  show ?thesis using h1 h2 h3 h4 h5 n r by blast
qed

end
